theory Spec2Isabelle
  imports Main "HOL-Library.Word"
begin

section \<open>Data model of package dnslookup (main.go)\<close>

text \<open>
  A Go slice is either \<open>nil\<close> or a (possibly empty) sequence of elements. The accessors
  test their slots with \<open>== nil\<close>, so the two empty slices must stay distinct:
  \<open>None\<close> is the nil slice, \<open>Some []\<close> an empty slice that is not nil.
\<close>

type_synonym 'a slice = "'a list option"

definition elems :: "'a slice \<Rightarrow> 'a list" where
  "elems s = (case s of None \<Rightarrow> [] | Some xs \<Rightarrow> xs)"

text \<open>
  The builtin \<open>append(s, xs...)\<close>: with nothing to add it returns \<open>s\<close> itself, so a nil
  slice stays nil; otherwise the result holds the old elements followed by the new ones.
\<close>

definition append_slice :: "'a slice \<Rightarrow> 'a list \<Rightarrow> 'a slice" where
  "append_slice s xs = (if xs = [] then s else Some (elems s @ xs))"

text \<open>\<open>make([]T, len(xs))\<close> followed by the element-wise copy loop: never nil.\<close>

definition make_copy :: "'a slice \<Rightarrow> 'a slice" where
  "make_copy s = Some (elems s)"

text \<open>\<open>net.IP\<close> is a byte slice; \<open>net.MX\<close> and \<open>net.NS\<close> are structs.\<close>

type_synonym IP = "8 word list"

datatype MX = MX (mx_Host: string) (mx_Pref: "16 word")

datatype NS = NS (ns_Host: string)

text \<open>A Go \<open>error\<close> value; the nil error is \<open>None\<close> of \<open>error option\<close>.\<close>

datatype error = DNSError string

record DnsRecord =
  domain :: string
  aRecords :: "IP slice"
  cnameRecords :: string
  mxRecords :: "MX slice"
  nsRecords :: "NS slice"
  ptrRecords :: "string slice"
  txtRecords :: "string slice"

text \<open>
  The functions of package \<open>net\<close> that the accessors call. They are outside the
  repository, so they are parameters of the model. Each returns Go's pair of a result and
  an error. The first argument is the number of resolver calls made so far, which lets an
  answer change from one call to the next (a lookup that fails first and succeeds later).
  \<open>net.LookupMX\<close> and \<open>net.LookupNS\<close> return slices of pointers to freshly allocated
  structs, none of them nil; the model holds the structs themselves.
\<close>

record net =
  LookupIP :: "nat \<Rightarrow> string \<Rightarrow> IP slice \<times> error option"
  LookupCNAME :: "nat \<Rightarrow> string \<Rightarrow> string \<times> error option"
  LookupMX :: "nat \<Rightarrow> string \<Rightarrow> MX slice \<times> error option"
  LookupNS :: "nat \<Rightarrow> string \<Rightarrow> NS slice \<times> error option"
  LookupAddr :: "nat \<Rightarrow> string \<Rightarrow> string slice \<times> error option"
  LookupTXT :: "nat \<Rightarrow> string \<Rightarrow> string slice \<times> error option"
  IP_String :: "IP \<Rightarrow> string"

datatype call =
    CallLookupIP string
  | CallLookupCNAME string
  | CallLookupMX string
  | CallLookupNS string
  | CallLookupAddr string
  | CallLookupTXT string

text \<open>
  The state a sequential run of the package works on: the instance the receiver \<open>d\<close>
  points to, the package-level \<open>mutex\<close> (True when locked) and the resolver calls made so
  far, oldest first.
\<close>

record world =
  dns :: DnsRecord
  mutex :: bool
  trace :: "call list"

text \<open>
  The two ways \<open>sync.Mutex\<close> ends the process: \<open>Unlock\<close> of a mutex that is not locked is
  the fatal error "sync: unlock of unlocked mutex"; \<open>Lock\<close> of a mutex that is already
  locked blocks the only goroutine for ever, which the runtime reports as a deadlock.
\<close>

datatype fault = UnlockOfUnlockedMutex | Deadlock

type_synonym 'a prog = "world \<Rightarrow> fault + ('a \<times> world)"

definition ret :: "'a \<Rightarrow> 'a prog" where
  "ret v w = Inr (v, w)"

definition then_prog :: "'a prog \<Rightarrow> ('a \<Rightarrow> 'b prog) \<Rightarrow> 'b prog" where
  "then_prog m f w = (case m w of Inl e \<Rightarrow> Inl e | Inr (v, w') \<Rightarrow> f v w')"

definition Lock :: "unit prog" where
  "Lock w = (if mutex w then Inl Deadlock else Inr ((), w\<lparr>mutex := True\<rparr>))"

definition Unlock :: "unit prog" where
  "Unlock w = (if mutex w then Inr ((), w\<lparr>mutex := False\<rparr>) else Inl UnlockOfUnlockedMutex)"

definition update_dns :: "(DnsRecord \<Rightarrow> DnsRecord) \<Rightarrow> unit prog" where
  "update_dns f w = Inr ((), w\<lparr>dns := f (dns w)\<rparr>)"

text \<open>A resolver call: ask package \<open>net\<close> and record the call in the trace.\<close>

definition resolve :: "(nat \<Rightarrow> string \<Rightarrow> 'a \<times> error option) \<Rightarrow> (string \<Rightarrow> call) \<Rightarrow> string
    \<Rightarrow> ('a \<times> error option) prog" where
  "resolve lookup tag name w = Inr (lookup (length (trace w)) name, w\<lparr>trace := trace w @ [tag name]\<rparr>)"

section \<open>The constructor and the accessors\<close>

definition NewDnsRecord :: "string \<Rightarrow> DnsRecord" where
  "NewDnsRecord domainName =
     \<lparr>domain = domainName, aRecords = None, cnameRecords = [], mxRecords = None,
      nsRecords = None, ptrRecords = None, txtRecords = None\<rparr>"

text \<open>The process state in which a new instance starts: mutex unlocked, no call made.\<close>

definition init_world :: "DnsRecord \<Rightarrow> world" where
  "init_world r = \<lparr>dns = r, mutex = False, trace = []\<rparr>"

definition GetARecords :: "net \<Rightarrow> IP slice prog" where
  "GetARecords n w =
     (if aRecords (dns w) = None then
        then_prog (resolve (LookupIP n) CallLookupIP (domain (dns w))) (\<lambda>(aRecs, err).
        then_prog (if err = None then
                     then_prog Lock (\<lambda>_.
                     then_prog (update_dns (\<lambda>r. r\<lparr>aRecords := append_slice (aRecords r) (elems aRecs)\<rparr>)) (\<lambda>_.
                     Unlock))
                   else ret ()) (\<lambda>_ w'.
        ret (aRecords (dns w')) w')) w
      else ret (aRecords (dns w)) w)"

text \<open>In \<open>GetCnameRecords\<close> and \<open>GetTxtRecords\<close> the \<open>Unlock\<close> stands after the
  \<open>if err == nil\<close> block, so it runs on both branches.\<close>

definition GetCnameRecords :: "net \<Rightarrow> string prog" where
  "GetCnameRecords n w =
     (if cnameRecords (dns w) = [] then
        then_prog (resolve (LookupCNAME n) CallLookupCNAME (domain (dns w))) (\<lambda>(cname, err).
        then_prog (if err = None then
                     then_prog Lock (\<lambda>_.
                     update_dns (\<lambda>r. r\<lparr>cnameRecords := cname\<rparr>))
                   else ret ()) (\<lambda>_.
        then_prog Unlock (\<lambda>_ w'.
        ret (cnameRecords (dns w')) w'))) w
      else ret (cnameRecords (dns w)) w)"

definition GetMxRecords :: "net \<Rightarrow> MX slice prog" where
  "GetMxRecords n w =
     (if mxRecords (dns w) = None then
        then_prog (resolve (LookupMX n) CallLookupMX (domain (dns w))) (\<lambda>(mxRecs, err).
        then_prog (if err = None then
                     then_prog Lock (\<lambda>_.
                     then_prog (update_dns (\<lambda>r. r\<lparr>mxRecords := make_copy mxRecs\<rparr>)) (\<lambda>_.
                     Unlock))
                   else ret ()) (\<lambda>_ w'.
        ret (mxRecords (dns w')) w')) w
      else ret (mxRecords (dns w)) w)"

definition GetNsRecords :: "net \<Rightarrow> NS slice prog" where
  "GetNsRecords n w =
     then_prog (if nsRecords (dns w) = None then
                  then_prog (resolve (LookupNS n) CallLookupNS (domain (dns w))) (\<lambda>(nsRecs, err).
                  if err = None then
                    then_prog Lock (\<lambda>_.
                    then_prog (update_dns (\<lambda>r. r\<lparr>nsRecords := make_copy nsRecs\<rparr>)) (\<lambda>_.
                    Unlock))
                  else ret ())
                else ret ()) (\<lambda>_ w'.
     ret (nsRecords (dns w')) w') w"

text \<open>The body of both \<open>range d.aRecords\<close> loops of \<open>GetPtrRecords\<close>: one reverse
  lookup per address, its error dropped and its names appended to the pointer slot.\<close>

fun ptr_loop :: "net \<Rightarrow> IP list \<Rightarrow> world \<Rightarrow> world" where
  "ptr_loop n [] w = w"
| "ptr_loop n (v # vs) w =
     (let (ptr, _) = LookupAddr n (length (trace w)) (IP_String n v)
      in ptr_loop n vs
           (w\<lparr>trace := trace w @ [CallLookupAddr (IP_String n v)],
              dns := (dns w)\<lparr>ptrRecords := append_slice (ptrRecords (dns w)) (elems ptr)\<rparr>\<rparr>))"

definition range_aRecords :: "net \<Rightarrow> unit prog" where
  "range_aRecords n w = Inr ((), ptr_loop n (elems (aRecords (dns w))) w)"

definition GetPtrRecords :: "net \<Rightarrow> string slice prog" where
  "GetPtrRecords n w =
     then_prog (if ptrRecords (dns w) = None then
                  then_prog (if aRecords (dns w) = None then
                               then_prog (GetARecords n) (\<lambda>_.
                               range_aRecords n)
                             else ret ()) (\<lambda>_.
                  range_aRecords n)
                else ret ()) (\<lambda>_ w'.
     ret (ptrRecords (dns w')) w') w"

definition GetTxtRecords :: "net \<Rightarrow> string slice prog" where
  "GetTxtRecords n w =
     then_prog (if txtRecords (dns w) = None then
                  then_prog (resolve (LookupTXT n) CallLookupTXT (domain (dns w))) (\<lambda>(txtRecs, err).
                  then_prog (if err = None then
                               then_prog Lock (\<lambda>_.
                               update_dns (\<lambda>r. r\<lparr>txtRecords := txtRecs\<rparr>))
                             else ret ()) (\<lambda>_.
                  Unlock))
                else ret ()) (\<lambda>_ w'.
     ret (txtRecords (dns w')) w') w"

text \<open>The values of \<open>map[string]interface{}\<close>: what the six accessors return.\<close>

datatype iface =
    IPs "IP slice"
  | Str string
  | MXs "MX slice"
  | NSs "NS slice"
  | Strs "string slice"

definition GetAllRecords :: "net \<Rightarrow> (string \<rightharpoonup> iface) prog" where
  "GetAllRecords n =
     then_prog (GetARecords n) (\<lambda>a.
     then_prog (GetCnameRecords n) (\<lambda>c.
     then_prog (GetMxRecords n) (\<lambda>m.
     then_prog (GetNsRecords n) (\<lambda>s.
     then_prog (GetPtrRecords n) (\<lambda>p.
     then_prog (GetTxtRecords n) (\<lambda>t.
     ret (Map.empty(''A records'' \<mapsto> IPs a, ''CNAME records'' \<mapsto> Str c,
                    ''MX records'' \<mapsto> MXs m, ''NS records'' \<mapsto> NSs s,
                    ''PTR records'' \<mapsto> Strs p, ''TXT records'' \<mapsto> Strs t))))))))"

section \<open>The command-line program\<close>

definition searchOptions :: "string list" where
  "searchOptions = [''a'', ''all'', ''cname'', ''mx'', ''ns'', ''ptr'', ''txt'']"

text \<open>The loop of \<open>isValidSearchType\<close>, with the local variable \<open>found\<close> as an argument.\<close>

fun isValid_loop :: "string \<Rightarrow> string list \<Rightarrow> bool \<Rightarrow> bool" where
  "isValid_loop searchType [] found = found"
| "isValid_loop searchType (v # vs) found =
     (if searchType \<noteq> v then isValid_loop searchType vs False else True)"

definition isValidSearchType :: "string \<Rightarrow> bool" where
  "isValidSearchType searchType = isValid_loop searchType searchOptions True"

text \<open>What \<open>fmt.Println\<close> is given: the usage text, an accessor's value, or the map.\<close>

datatype printed = PrintLine string | PrintVal iface | PrintMap "string \<rightharpoonup> iface"

definition usage :: string where
  "usage = ''error: -domain and -s parameters required. usage: dnssearch -domain example.net -s all''"

text \<open>
  \<open>main\<close> after \<open>flag.Parse\<close>: its arguments are the values of the flags \<open>-domain\<close> and
  \<open>-s\<close>, each the empty string when the flag is missing. The result is what was printed
  and the final state, whose trace lists the lookups performed.
\<close>

definition main :: "net \<Rightarrow> string \<Rightarrow> string \<Rightarrow> fault + (printed list \<times> world)" where
  "main n domainFlag searchType =
     (let recorder = init_world (NewDnsRecord domainFlag) in
      if \<not> isValidSearchType searchType then ret [PrintLine usage] recorder
      else if searchType = ''a'' then
        then_prog (GetARecords n) (\<lambda>v. ret [PrintVal (IPs v)]) recorder
      else if searchType = ''all'' then
        then_prog (GetAllRecords n) (\<lambda>v. ret [PrintMap v]) recorder
      else if searchType = ''cname'' then
        then_prog (GetCnameRecords n) (\<lambda>v. ret [PrintVal (Str v)]) recorder
      else if searchType = ''mx'' then
        then_prog (GetMxRecords n) (\<lambda>v. ret [PrintVal (MXs v)]) recorder
      else if searchType = ''ns'' then
        then_prog (GetNsRecords n) (\<lambda>v. ret [PrintVal (NSs v)]) recorder
      else if searchType = ''ptr'' then
        then_prog (GetPtrRecords n) (\<lambda>v. ret [PrintVal (Strs v)]) recorder
      else if searchType = ''txt'' then
        then_prog (GetTxtRecords n) (\<lambda>v. ret [PrintVal (Strs v)]) recorder
      else ret [] recorder)"

section \<open>Vocabulary of the properties\<close>

text \<open>The six record kinds, the accessor of each, its slot and the test the accessor
  applies to decide that the slot is cached.\<close>

datatype kind = KA | KCNAME | KMX | KNS | KPTR | KTXT

fun accessor :: "net \<Rightarrow> kind \<Rightarrow> iface prog" where
  "accessor n KA = then_prog (GetARecords n) (\<lambda>v. ret (IPs v))"
| "accessor n KCNAME = then_prog (GetCnameRecords n) (\<lambda>v. ret (Str v))"
| "accessor n KMX = then_prog (GetMxRecords n) (\<lambda>v. ret (MXs v))"
| "accessor n KNS = then_prog (GetNsRecords n) (\<lambda>v. ret (NSs v))"
| "accessor n KPTR = then_prog (GetPtrRecords n) (\<lambda>v. ret (Strs v))"
| "accessor n KTXT = then_prog (GetTxtRecords n) (\<lambda>v. ret (Strs v))"

fun slot :: "kind \<Rightarrow> DnsRecord \<Rightarrow> iface" where
  "slot KA r = IPs (aRecords r)"
| "slot KCNAME r = Str (cnameRecords r)"
| "slot KMX r = MXs (mxRecords r)"
| "slot KNS r = NSs (nsRecords r)"
| "slot KPTR r = Strs (ptrRecords r)"
| "slot KTXT r = Strs (txtRecords r)"

fun cached :: "kind \<Rightarrow> DnsRecord \<Rightarrow> bool" where
  "cached KA r = (aRecords r \<noteq> None)"
| "cached KCNAME r = (cnameRecords r \<noteq> [])"
| "cached KMX r = (mxRecords r \<noteq> None)"
| "cached KNS r = (nsRecords r \<noteq> None)"
| "cached KPTR r = (ptrRecords r \<noteq> None)"
| "cached KTXT r = (txtRecords r \<noteq> None)"

text \<open>What can be called on an instance: the six accessors and the aggregate \<open>GetAllRecords\<close>.\<close>

datatype operation = Get kind | GetAll

datatype result = One iface | All "string \<rightharpoonup> iface"

fun invoke :: "net \<Rightarrow> operation \<Rightarrow> result prog" where
  "invoke n (Get k) = then_prog (accessor n k) (\<lambda>v. ret (One v))"
| "invoke n GetAll = then_prog (GetAllRecords n) (\<lambda>m. ret (All m))"

text \<open>A sequence of calls on one instance, stopping at the first fault.\<close>

fun run_calls :: "net \<Rightarrow> operation list \<Rightarrow> (result list) prog" where
  "run_calls n [] w = Inr ([], w)"
| "run_calls n (m # ms) w =
     (case invoke n m w of
        Inl e \<Rightarrow> Inl e
      | Inr (r, w') \<Rightarrow>
          (case run_calls n ms w' of Inl e \<Rightarrow> Inl e | Inr (rs, w'') \<Rightarrow> Inr (r # rs, w'')))"

text \<open>The resolver call that the accessor of a kind makes for the domain.\<close>

fun resolver_call :: "kind \<Rightarrow> string \<Rightarrow> call" where
  "resolver_call KA name = CallLookupIP name"
| "resolver_call KCNAME name = CallLookupCNAME name"
| "resolver_call KMX name = CallLookupMX name"
| "resolver_call KNS name = CallLookupNS name"
| "resolver_call KPTR name = CallLookupAddr name"
| "resolver_call KTXT name = CallLookupTXT name"

fun is_LookupAddr :: "call \<Rightarrow> bool" where
  "is_LookupAddr (CallLookupAddr name) = True"
| "is_LookupAddr c = False"

definition reverse_lookups :: "call list \<Rightarrow> nat" where
  "reverse_lookups tr = length (filter is_LookupAddr tr)"

text \<open>
  Whether the answer of package \<open>net\<close> at moment \<open>t\<close> is one that the accessor of the kind
  stores so that its slot is no longer in the "not yet cached" state: no error, and for
  \<open>GetARecords\<close> at least one address, for \<open>GetCnameRecords\<close> a name that is not empty, for
  \<open>GetTxtRecords\<close> a slice that is not nil. The pointer slot is not filled from one lookup
  of the domain.
\<close>

fun lookup_populates :: "net \<Rightarrow> kind \<Rightarrow> nat \<Rightarrow> string \<Rightarrow> bool" where
  "lookup_populates n KA t name =
     (case LookupIP n t name of (a, err) \<Rightarrow> err = None \<and> elems a \<noteq> [])"
| "lookup_populates n KCNAME t name =
     (case LookupCNAME n t name of (c, err) \<Rightarrow> err = None \<and> c \<noteq> [])"
| "lookup_populates n KMX t name = (snd (LookupMX n t name) = None)"
| "lookup_populates n KNS t name = (snd (LookupNS n t name) = None)"
| "lookup_populates n KPTR t name = False"
| "lookup_populates n KTXT t name =
     (case LookupTXT n t name of (x, err) \<Rightarrow> err = None \<and> x \<noteq> None)"

section \<open>Resolver stubs for the concrete runs\<close>

definition no_such_host :: "error option" where
  "no_such_host = Some (DNSError ''no such host'')"

definition ip_text :: "IP \<Rightarrow> string" where
  "ip_text ip = (if ip = [93, 184, 216, 34] then ''93.184.216.34''
                 else if ip = [192, 0, 2, 1] then ''192.0.2.1'' else ''?'')"

text \<open>Every lookup fails.\<close>

definition failing_net :: net where
  "failing_net =
     \<lparr>LookupIP = (\<lambda>t name. (None, no_such_host)),
      LookupCNAME = (\<lambda>t name. ([], no_such_host)),
      LookupMX = (\<lambda>t name. (None, no_such_host)),
      LookupNS = (\<lambda>t name. (None, no_such_host)),
      LookupAddr = (\<lambda>t name. (None, no_such_host)),
      LookupTXT = (\<lambda>t name. (None, no_such_host)),
      IP_String = ip_text\<rparr>"

text \<open>The answers behind the output shown in the README; the reverse lookup fails.\<close>

definition example_net :: net where
  "example_net =
     \<lparr>LookupIP = (\<lambda>t name. (Some [[93, 184, 216, 34]], None)),
      LookupCNAME = (\<lambda>t name. (''example.net.'', None)),
      LookupMX = (\<lambda>t name. (Some [MX ''.'' 0], None)),
      LookupNS = (\<lambda>t name. (Some [NS ''a.iana-servers.net.'', NS ''b.iana-servers.net.''], None)),
      LookupAddr = (\<lambda>t name. (None, no_such_host)),
      LookupTXT = (\<lambda>t name. (Some [''v=spf1 -all''], None)),
      IP_String = ip_text\<rparr>"

text \<open>Two addresses, and a reverse lookup that answers one name per address.\<close>

definition two_address_net :: net where
  "two_address_net =
     example_net\<lparr>LookupIP := (\<lambda>t name. (Some [[93, 184, 216, 34], [192, 0, 2, 1]], None)),
                 LookupAddr := (\<lambda>t name. (Some [name @ ''.in-addr.example.''], None))\<rparr>"

text \<open>Every lookup succeeds with nothing: an empty address list, an empty name, nil slices.\<close>

definition zero_records_net :: net where
  "zero_records_net =
     \<lparr>LookupIP = (\<lambda>t name. (Some [], None)),
      LookupCNAME = (\<lambda>t name. ([], None)),
      LookupMX = (\<lambda>t name. (None, None)),
      LookupNS = (\<lambda>t name. (None, None)),
      LookupAddr = (\<lambda>t name. (None, None)),
      LookupTXT = (\<lambda>t name. (None, None)),
      IP_String = ip_text\<rparr>"

text \<open>The first resolver call of the process fails, every later one succeeds.\<close>

definition fail_then_succeed_net :: net where
  "fail_then_succeed_net =
     \<lparr>LookupIP = (\<lambda>t name. if t = 0 then (None, no_such_host) else (Some [[93, 184, 216, 34]], None)),
      LookupCNAME = (\<lambda>t name. if t = 0 then ([], no_such_host) else (''example.net.'', None)),
      LookupMX = (\<lambda>t name. if t = 0 then (None, no_such_host) else (Some [MX ''.'' 0], None)),
      LookupNS = (\<lambda>t name. if t = 0 then (None, no_such_host) else (Some [NS ''a.iana-servers.net.''], None)),
      LookupAddr = (\<lambda>t name. (None, no_such_host)),
      LookupTXT = (\<lambda>t name. if t = 0 then (None, no_such_host) else (Some [''v=spf1 -all''], None)),
      IP_String = ip_text\<rparr>"

text \<open>An instance for \<open>example.net\<close> whose address slot is already filled.\<close>

definition addressed_world :: world where
  "addressed_world =
     \<lparr>dns = (NewDnsRecord ''example.net'')\<lparr>aRecords := Some [[93, 184, 216, 34]]\<rparr>,
      mutex = False, trace = [CallLookupIP ''example.net'']\<rparr>"

section \<open>Facts about the accessors\<close>

lemmas prog_defs = then_prog_def ret_def resolve_def Lock_def Unlock_def update_dns_def

lemmas slice_defs = append_slice_def elems_def make_copy_def

lemmas acc_defs = GetARecords_def GetCnameRecords_def GetMxRecords_def GetNsRecords_def
  GetPtrRecords_def GetTxtRecords_def GetAllRecords_def range_aRecords_def

lemmas init_defs = init_world_def NewDnsRecord_def

lemmas stub_defs = no_such_host_def ip_text_def failing_net_def example_net_def
  two_address_net_def zero_records_net_def fail_then_succeed_net_def addressed_world_def

subsection \<open>The reverse-lookup loop\<close>

lemma ptr_loop_trace:
  "trace (ptr_loop n vs w) = trace w @ map (\<lambda>v. CallLookupAddr (IP_String n v)) vs"
  by (induction vs arbitrary: w) (simp_all add: Let_def split: prod.splits)

lemma ptr_loop_mutex: "mutex (ptr_loop n vs w) = mutex w"
  by (induction vs arbitrary: w) (simp_all add: Let_def split: prod.splits)

lemma ptr_loop_fields:
  "domain (dns (ptr_loop n vs w)) = domain (dns w)"
  "aRecords (dns (ptr_loop n vs w)) = aRecords (dns w)"
  "cnameRecords (dns (ptr_loop n vs w)) = cnameRecords (dns w)"
  "mxRecords (dns (ptr_loop n vs w)) = mxRecords (dns w)"
  "nsRecords (dns (ptr_loop n vs w)) = nsRecords (dns w)"
  "txtRecords (dns (ptr_loop n vs w)) = txtRecords (dns w)"
  by (induction vs arbitrary: w; simp add: Let_def split: prod.splits)+

lemma reverse_lookups_append:
  "reverse_lookups (xs @ ys) = reverse_lookups xs + reverse_lookups ys"
  by (simp add: reverse_lookups_def)

lemma reverse_lookups_map:
  "reverse_lookups (map (\<lambda>v. CallLookupAddr (f v)) vs) = length vs"
  by (induction vs) (simp_all add: reverse_lookups_def)

subsection \<open>What a call that returns has changed\<close>

lemma GetARecords_Inr:
  assumes "GetARecords n w = Inr (v, w')"
  shows "v = aRecords (dns w')"
    and "aRecords (dns w) \<noteq> None \<Longrightarrow> w' = w"
    and "mutex w' = mutex w"
    and "domain (dns w') = domain (dns w)"
    and "cnameRecords (dns w') = cnameRecords (dns w)"
    and "mxRecords (dns w') = mxRecords (dns w)"
    and "nsRecords (dns w') = nsRecords (dns w)"
    and "ptrRecords (dns w') = ptrRecords (dns w)"
    and "txtRecords (dns w') = txtRecords (dns w)"
  using assms
  by (auto simp: GetARecords_def prog_defs split: if_splits prod.splits)

lemma GetCnameRecords_Inr:
  assumes "GetCnameRecords n w = Inr (v, w')"
  shows "v = cnameRecords (dns w')"
    and "cnameRecords (dns w) \<noteq> [] \<Longrightarrow> w' = w"
    and "domain (dns w') = domain (dns w)"
    and "aRecords (dns w') = aRecords (dns w)"
    and "mxRecords (dns w') = mxRecords (dns w)"
    and "nsRecords (dns w') = nsRecords (dns w)"
    and "ptrRecords (dns w') = ptrRecords (dns w)"
    and "txtRecords (dns w') = txtRecords (dns w)"
  using assms
  by (auto simp: GetCnameRecords_def prog_defs split: if_splits prod.splits)

lemma GetMxRecords_Inr:
  assumes "GetMxRecords n w = Inr (v, w')"
  shows "v = mxRecords (dns w')"
    and "mxRecords (dns w) \<noteq> None \<Longrightarrow> w' = w"
    and "domain (dns w') = domain (dns w)"
    and "aRecords (dns w') = aRecords (dns w)"
    and "cnameRecords (dns w') = cnameRecords (dns w)"
    and "nsRecords (dns w') = nsRecords (dns w)"
    and "ptrRecords (dns w') = ptrRecords (dns w)"
    and "txtRecords (dns w') = txtRecords (dns w)"
  using assms
  by (auto simp: GetMxRecords_def prog_defs split: if_splits prod.splits)

lemma GetNsRecords_Inr:
  assumes "GetNsRecords n w = Inr (v, w')"
  shows "v = nsRecords (dns w')"
    and "nsRecords (dns w) \<noteq> None \<Longrightarrow> w' = w"
    and "domain (dns w') = domain (dns w)"
    and "aRecords (dns w') = aRecords (dns w)"
    and "cnameRecords (dns w') = cnameRecords (dns w)"
    and "mxRecords (dns w') = mxRecords (dns w)"
    and "ptrRecords (dns w') = ptrRecords (dns w)"
    and "txtRecords (dns w') = txtRecords (dns w)"
  using assms
  by (auto simp: GetNsRecords_def prog_defs split: if_splits prod.splits)

lemma GetTxtRecords_Inr:
  assumes "GetTxtRecords n w = Inr (v, w')"
  shows "v = txtRecords (dns w')"
    and "txtRecords (dns w) \<noteq> None \<Longrightarrow> w' = w"
    and "domain (dns w') = domain (dns w)"
    and "aRecords (dns w') = aRecords (dns w)"
    and "cnameRecords (dns w') = cnameRecords (dns w)"
    and "mxRecords (dns w') = mxRecords (dns w)"
    and "nsRecords (dns w') = nsRecords (dns w)"
    and "ptrRecords (dns w') = ptrRecords (dns w)"
  using assms
  by (auto simp: GetTxtRecords_def prog_defs split: if_splits prod.splits)

text \<open>\<open>GetPtrRecords\<close> by cases: slot cached; addresses held, one loop; addresses
  fetched first, both loops.\<close>

lemma GetPtrRecords_unfold:
  "GetPtrRecords n w =
     (if ptrRecords (dns w) \<noteq> None then Inr (ptrRecords (dns w), w)
      else if aRecords (dns w) \<noteq> None then
        (let w' = ptr_loop n (elems (aRecords (dns w))) w in Inr (ptrRecords (dns w'), w'))
      else (case GetARecords n w of
              Inl e \<Rightarrow> Inl e
            | Inr (u, w1) \<Rightarrow>
                (let w' = ptr_loop n (elems (aRecords (dns w1)))
                            (ptr_loop n (elems (aRecords (dns w1))) w1)
                 in Inr (ptrRecords (dns w'), w'))))"
  by (auto simp: GetPtrRecords_def range_aRecords_def prog_defs ptr_loop_fields Let_def
        split: sum.splits)

lemma GetPtrRecords_Inr:
  assumes "GetPtrRecords n w = Inr (v, w')"
  shows "v = ptrRecords (dns w')"
    and "ptrRecords (dns w) \<noteq> None \<Longrightarrow> w' = w"
    and "aRecords (dns w) \<noteq> None \<Longrightarrow> aRecords (dns w') = aRecords (dns w)"
    and "domain (dns w') = domain (dns w)"
    and "cnameRecords (dns w') = cnameRecords (dns w)"
    and "mxRecords (dns w') = mxRecords (dns w)"
    and "nsRecords (dns w') = nsRecords (dns w)"
    and "txtRecords (dns w') = txtRecords (dns w)"
  using assms unfolding GetPtrRecords_unfold
  by (auto simp: Let_def ptr_loop_fields split: if_splits sum.splits dest: GetARecords_Inr)

lemma accessor_cached: "cached k (dns w) \<Longrightarrow> accessor n k w = Inr (slot k (dns w), w)"
  by (cases k)
     (auto simp: GetARecords_def GetCnameRecords_def GetMxRecords_def GetNsRecords_def
        GetPtrRecords_def GetTxtRecords_def then_prog_def ret_def)

lemma accessor_Inr:
  assumes "accessor n k w = Inr (v, w')"
  shows "v = slot k (dns w')"
    and "domain (dns w') = domain (dns w)"
    and "cached k' (dns w) \<Longrightarrow> slot k' (dns w') = slot k' (dns w)"
proof -
  show "v = slot k (dns w')"
    using assms
    by (cases k)
       (auto simp: then_prog_def ret_def split: sum.splits
          dest: GetARecords_Inr(1) GetCnameRecords_Inr(1) GetMxRecords_Inr(1)
                GetNsRecords_Inr(1) GetPtrRecords_Inr(1) GetTxtRecords_Inr(1))
  show "domain (dns w') = domain (dns w)"
    using assms
    by (cases k)
       (auto simp: then_prog_def ret_def split: sum.splits
          dest: GetARecords_Inr(4) GetCnameRecords_Inr(3) GetMxRecords_Inr(3)
                GetNsRecords_Inr(3) GetPtrRecords_Inr(4) GetTxtRecords_Inr(3))
  show "cached k' (dns w) \<Longrightarrow> slot k' (dns w') = slot k' (dns w)"
    using assms
    by (cases k; cases k')
       (auto simp: then_prog_def ret_def split: sum.splits
          dest: GetARecords_Inr GetCnameRecords_Inr GetMxRecords_Inr
                GetNsRecords_Inr GetPtrRecords_Inr GetTxtRecords_Inr)
qed

lemma cached_slot: "slot k r' = slot k r \<Longrightarrow> cached k r' = cached k r"
  by (cases k) auto

text \<open>A run of accessors keeps the domain and every slot that was cached at its start.\<close>

lemma run_gets_keeps:
  assumes "run_calls n (map Get ks) w = Inr (rs, w')"
  shows "domain (dns w') = domain (dns w)"
    and "cached k' (dns w) \<Longrightarrow> cached k' (dns w') \<and> slot k' (dns w') = slot k' (dns w)"
  using assms
proof (induction ks arbitrary: w rs)
  case Nil
  { case 1 then show ?case by simp
  next
    case 2 then show ?case by simp }
next
  case (Cons k ks)
  { case 1
    then obtain v w1 rs1 where a: "accessor n k w = Inr (v, w1)"
        and r: "run_calls n (map Get ks) w1 = Inr (rs1, w')"
      by (auto simp: then_prog_def ret_def split: sum.splits)
    show ?case
      using Cons.IH(1) [OF r] accessor_Inr(2) [OF a] by simp
  next
    case 2
    then obtain v w1 rs1 where a: "accessor n k w = Inr (v, w1)"
        and r: "run_calls n (map Get ks) w1 = Inr (rs1, w')"
      by (auto simp: then_prog_def ret_def split: sum.splits)
    have s: "slot k' (dns w1) = slot k' (dns w)"
      using accessor_Inr(3) [OF a] 2(1) by simp
    then have "cached k' (dns w1)"
      using cached_slot 2(1) by blast
    then show ?case
      using Cons.IH(2) [OF _ r] s by simp }
qed

text \<open>\<open>GetAllRecords\<close> is the six accessors in the order of the source, and the map it
  returns has the six keys.\<close>

lemma GetAllRecords_steps:
  assumes "GetAllRecords n w = Inr (m, w')"
  shows "\<exists>a w1 c w2 x w3 s w4 p w5 t.
           GetARecords n w = Inr (a, w1) \<and> GetCnameRecords n w1 = Inr (c, w2)
         \<and> GetMxRecords n w2 = Inr (x, w3) \<and> GetNsRecords n w3 = Inr (s, w4)
         \<and> GetPtrRecords n w4 = Inr (p, w5) \<and> GetTxtRecords n w5 = Inr (t, w')
         \<and> m = Map.empty(''A records'' \<mapsto> IPs a, ''CNAME records'' \<mapsto> Str c,
                          ''MX records'' \<mapsto> MXs x, ''NS records'' \<mapsto> NSs s,
                          ''PTR records'' \<mapsto> Strs p, ''TXT records'' \<mapsto> Strs t)"
  using assms unfolding GetAllRecords_def then_prog_def ret_def
  by (simp split: sum.splits prod.splits)

lemma GetAllRecords_Inr:
  assumes "GetAllRecords n w = Inr (m, w')"
  shows "\<exists>rs. run_calls n (map Get [KA, KCNAME, KMX, KNS, KPTR, KTXT]) w = Inr (rs, w')"
    and "dom m = {''A records'', ''CNAME records'', ''MX records'', ''NS records'',
                  ''PTR records'', ''TXT records''}"
proof -
  obtain a w1 c w2 x w3 s w4 p w5 t where
    st: "GetARecords n w = Inr (a, w1)" "GetCnameRecords n w1 = Inr (c, w2)"
        "GetMxRecords n w2 = Inr (x, w3)" "GetNsRecords n w3 = Inr (s, w4)"
        "GetPtrRecords n w4 = Inr (p, w5)" "GetTxtRecords n w5 = Inr (t, w')"
    and m: "m = Map.empty(''A records'' \<mapsto> IPs a, ''CNAME records'' \<mapsto> Str c,
                          ''MX records'' \<mapsto> MXs x, ''NS records'' \<mapsto> NSs s,
                          ''PTR records'' \<mapsto> Strs p, ''TXT records'' \<mapsto> Strs t)"
    using GetAllRecords_steps [OF assms] by blast
  show "\<exists>rs. run_calls n (map Get [KA, KCNAME, KMX, KNS, KPTR, KTXT]) w = Inr (rs, w')"
    using st by (simp add: then_prog_def ret_def)
  show "dom m = {''A records'', ''CNAME records'', ''MX records'', ''NS records'',
                 ''PTR records'', ''TXT records''}"
    unfolding m by (simp add: insert_commute)
qed

lemma invoke_keeps:
  assumes "invoke n m w = Inr (r, w')"
  shows "domain (dns w') = domain (dns w)"
    and "cached k' (dns w) \<Longrightarrow> cached k' (dns w') \<and> slot k' (dns w') = slot k' (dns w)"
proof -
  have "\<exists>ks rs. run_calls n (map Get ks) w = Inr (rs, w')"
  proof (cases m)
    case (Get k)
    then have "run_calls n (map Get [k]) w = Inr ([r], w')"
      using assms by (auto split: sum.splits)
    then show ?thesis by blast
  next
    case GetAll
    then obtain mp where "GetAllRecords n w = Inr (mp, w')"
      using assms by (auto simp: then_prog_def ret_def split: sum.splits)
    then show ?thesis
      using GetAllRecords_Inr(1) by blast
  qed
  then obtain ks rs where r: "run_calls n (map Get ks) w = Inr (rs, w')"
    by blast
  show "domain (dns w') = domain (dns w)"
    using run_gets_keeps(1) [OF r] .
  show "cached k' (dns w) \<Longrightarrow> cached k' (dns w') \<and> slot k' (dns w') = slot k' (dns w)"
    using run_gets_keeps(2) [OF r] .
qed

lemma run_calls_keeps:
  assumes "run_calls n ms w = Inr (rs, w')"
  shows "domain (dns w') = domain (dns w)"
    and "cached k' (dns w) \<Longrightarrow> cached k' (dns w') \<and> slot k' (dns w') = slot k' (dns w)"
  using assms
proof (induction ms arbitrary: w rs)
  case Nil
  { case 1 then show ?case by simp
  next
    case 2 then show ?case by simp }
next
  case (Cons m ms)
  { case 1
    then obtain r w1 rs1 where a: "invoke n m w = Inr (r, w1)"
        and r: "run_calls n ms w1 = Inr (rs1, w')"
      by (auto split: sum.splits)
    show ?case
      using Cons.IH(1) [OF r] invoke_keeps(1) [OF a] by simp
  next
    case 2
    then obtain r w1 rs1 where a: "invoke n m w = Inr (r, w1)"
        and r: "run_calls n ms w1 = Inr (rs1, w')"
      by (auto split: sum.splits)
    have s: "cached k' (dns w1) \<and> slot k' (dns w1) = slot k' (dns w)"
      using invoke_keeps(2) [OF a] 2(1) by simp
    then show ?case
      using Cons.IH(2) [OF _ r] by simp }
qed


subsection \<open>A lookup that fails\<close>

text \<open>\<open>GetARecords\<close>, \<open>GetMxRecords\<close> and \<open>GetNsRecords\<close> unlock inside the
  \<open>if err == nil\<close> block: a failed lookup returns the nil slot and changes nothing but
  the trace.\<close>

lemma GetARecords_failed_lookup:
  assumes "aRecords (dns w) = None"
    and "snd (LookupIP n (length (trace w)) (domain (dns w))) \<noteq> None"
  shows "GetARecords n w = Inr (None, w\<lparr>trace := trace w @ [CallLookupIP (domain (dns w))]\<rparr>)"
  using assms by (auto simp: GetARecords_def prog_defs split: prod.splits)

lemma GetMxRecords_failed_lookup:
  assumes "mxRecords (dns w) = None"
    and "snd (LookupMX n (length (trace w)) (domain (dns w))) \<noteq> None"
  shows "GetMxRecords n w = Inr (None, w\<lparr>trace := trace w @ [CallLookupMX (domain (dns w))]\<rparr>)"
  using assms by (auto simp: GetMxRecords_def prog_defs split: prod.splits)

lemma GetNsRecords_failed_lookup:
  assumes "nsRecords (dns w) = None"
    and "snd (LookupNS n (length (trace w)) (domain (dns w))) \<noteq> None"
  shows "GetNsRecords n w = Inr (None, w\<lparr>trace := trace w @ [CallLookupNS (domain (dns w))]\<rparr>)"
  using assms by (auto simp: GetNsRecords_def prog_defs split: prod.splits)

text \<open>\<open>GetCnameRecords\<close> and \<open>GetTxtRecords\<close> unlock after the block: when the lookup
  fails the mutex was never locked, and the call ends in the fatal error.\<close>

lemma GetCnameRecords_failed_lookup:
  assumes "\<not> mutex w" and "cnameRecords (dns w) = []"
    and "snd (LookupCNAME n (length (trace w)) (domain (dns w))) \<noteq> None"
  shows "GetCnameRecords n w = Inl UnlockOfUnlockedMutex"
  using assms by (auto simp: GetCnameRecords_def prog_defs split: prod.splits)

lemma GetTxtRecords_failed_lookup:
  assumes "\<not> mutex w" and "txtRecords (dns w) = None"
    and "snd (LookupTXT n (length (trace w)) (domain (dns w))) \<noteq> None"
  shows "GetTxtRecords n w = Inl UnlockOfUnlockedMutex"
  using assms by (auto simp: GetTxtRecords_def prog_defs split: prod.splits)

subsection \<open>The number of reverse lookups\<close>

lemma GetPtrRecords_addresses_held:
  assumes "ptrRecords (dns w) = None" and "aRecords (dns w) = Some addrs"
  shows "\<exists>v w'. GetPtrRecords n w = Inr (v, w')
           \<and> reverse_lookups (trace w') = reverse_lookups (trace w) + length addrs"
  using assms unfolding GetPtrRecords_unfold
  by (simp add: Let_def elems_def ptr_loop_trace reverse_lookups_append reverse_lookups_map)

lemma elems_append_slice_nil: "elems (append_slice None xs) = xs"
  by (simp add: slice_defs)

lemma GetARecords_resolved:
  assumes "\<not> mutex w" and "aRecords (dns w) = None"
    and "LookupIP n (length (trace w)) (domain (dns w)) = (a, None)"
  shows "GetARecords n w =
           Inr (append_slice None (elems a),
                w\<lparr>trace := trace w @ [CallLookupIP (domain (dns w))],
                  dns := (dns w)\<lparr>aRecords := append_slice None (elems a)\<rparr>,
                  mutex := False\<rparr>)"
  using assms by (simp add: GetARecords_def prog_defs)

lemma GetPtrRecords_addresses_fetched:
  assumes "\<not> mutex w" and "ptrRecords (dns w) = None" and "aRecords (dns w) = None"
    and "LookupIP n (length (trace w)) (domain (dns w)) = (a, None)"
  shows "\<exists>v w'. GetPtrRecords n w = Inr (v, w')
           \<and> reverse_lookups (trace w') = reverse_lookups (trace w) + 2 * length (elems a)"
  using assms(2,3) unfolding GetPtrRecords_unfold
  by (simp add: GetARecords_resolved [OF assms(1,3,4)] Let_def elems_append_slice_nil
        ptr_loop_trace reverse_lookups_append reverse_lookups_map reverse_lookups_def)

subsection \<open>The command-line program\<close>

lemma isValid_loop_False: "isValid_loop s vs False = (s \<in> set vs)"
  by (induction vs) auto

lemma main_invalid_searchType:
  assumes "\<not> isValidSearchType searchType"
  shows "main n domainFlag searchType = Inr ([PrintLine usage], init_world (NewDnsRecord domainFlag))"
  using assms by (simp add: main_def ret_def)


section \<open>The claims\<close>

text \<open>
  C1. When the resolver of a kind fails, the accessor of that kind should return
  normally with the empty slot value, \<open>GetCnameRecords\<close> and \<open>GetTxtRecords\<close> in
  particular. On a new instance whose lookups all fail, both of these accessors end in
  the fatal error of unlocking a mutex that is not locked: the code does not do what
  the claim says.
\<close>

theorem C1_failed_cname_and_txt_lookup_fault:
  "GetCnameRecords failing_net (init_world (NewDnsRecord ''example.invalid''))
     = Inl UnlockOfUnlockedMutex
   \<and> GetTxtRecords failing_net (init_world (NewDnsRecord ''example.invalid''))
     = Inl UnlockOfUnlockedMutex"
  by (simp add: acc_defs prog_defs init_defs stub_defs)

text \<open>
  C2. A first \<open>GetPtrRecords\<close> should make one reverse lookup per address, also when
  it has to fetch the addresses. On a new instance whose address lookup answers two
  addresses it makes four reverse lookups, each address twice, and stores every name
  twice: the code does not do what the claim says.
\<close>

theorem C2_fetched_addresses_are_looked_up_twice:
  "GetPtrRecords two_address_net (init_world (NewDnsRecord ''example.net'')) =
     Inr (Some [''93.184.216.34.in-addr.example.'', ''192.0.2.1.in-addr.example.'',
                ''93.184.216.34.in-addr.example.'', ''192.0.2.1.in-addr.example.''],
          \<lparr>dns = (NewDnsRecord ''example.net'')
                   \<lparr>aRecords := Some [[93, 184, 216, 34], [192, 0, 2, 1]],
                    ptrRecords := Some [''93.184.216.34.in-addr.example.'',
                                        ''192.0.2.1.in-addr.example.'',
                                        ''93.184.216.34.in-addr.example.'',
                                        ''192.0.2.1.in-addr.example.'']\<rparr>,
           mutex = False,
           trace = [CallLookupIP ''example.net'',
                    CallLookupAddr ''93.184.216.34'', CallLookupAddr ''192.0.2.1'',
                    CallLookupAddr ''93.184.216.34'', CallLookupAddr ''192.0.2.1'']\<rparr>)
   \<and> reverse_lookups [CallLookupIP ''example.net'',
                       CallLookupAddr ''93.184.216.34'', CallLookupAddr ''192.0.2.1'',
                       CallLookupAddr ''93.184.216.34'', CallLookupAddr ''192.0.2.1''] = 4"
  by (simp add: acc_defs prog_defs init_defs stub_defs slice_defs reverse_lookups_def)

text \<open>
  C3, as stated: two calls of an accessor in sequence make at most one resolver call,
  the second being served from the cache, also when the first resolution succeeded with
  zero records. It fails: after an address lookup that succeeds with an empty list, after
  a canonical-name lookup that succeeds with the empty name, after a text lookup that
  succeeds with a nil slice, after an address lookup that fails and after a reverse
  lookup that succeeds with no name, the second call asks the resolver again; and one
  call of \<open>GetPtrRecords\<close> on two held addresses makes two reverse lookups.
\<close>

theorem C3_counterexample:
  "run_calls zero_records_net [Get KA, Get KA] (init_world (NewDnsRecord ''example.net''))
     = Inr ([One (IPs None), One (IPs None)],
            \<lparr>dns = NewDnsRecord ''example.net'', mutex = False,
             trace = [CallLookupIP ''example.net'', CallLookupIP ''example.net'']\<rparr>)
   \<and> run_calls zero_records_net [Get KCNAME, Get KCNAME] (init_world (NewDnsRecord ''example.net''))
     = Inr ([One (Str []), One (Str [])],
            \<lparr>dns = NewDnsRecord ''example.net'', mutex = False,
             trace = [CallLookupCNAME ''example.net'', CallLookupCNAME ''example.net'']\<rparr>)
   \<and> run_calls zero_records_net [Get KTXT, Get KTXT] (init_world (NewDnsRecord ''example.net''))
     = Inr ([One (Strs None), One (Strs None)],
            \<lparr>dns = NewDnsRecord ''example.net'', mutex = False,
             trace = [CallLookupTXT ''example.net'', CallLookupTXT ''example.net'']\<rparr>)
   \<and> run_calls failing_net [Get KA, Get KA] (init_world (NewDnsRecord ''example.net''))
     = Inr ([One (IPs None), One (IPs None)],
            \<lparr>dns = NewDnsRecord ''example.net'', mutex = False,
             trace = [CallLookupIP ''example.net'', CallLookupIP ''example.net'']\<rparr>)
   \<and> run_calls zero_records_net [Get KPTR, Get KPTR] addressed_world
     = Inr ([One (Strs None), One (Strs None)],
            \<lparr>dns = (NewDnsRecord ''example.net'')\<lparr>aRecords := Some [[93, 184, 216, 34]]\<rparr>,
             mutex = False,
             trace = [CallLookupIP ''example.net'',
                      CallLookupAddr ''93.184.216.34'', CallLookupAddr ''93.184.216.34'']\<rparr>)
   \<and> run_calls two_address_net [Get KA, Get KPTR] (init_world (NewDnsRecord ''example.net''))
     = Inr ([One (IPs (Some [[93, 184, 216, 34], [192, 0, 2, 1]])),
             One (Strs (Some [''93.184.216.34.in-addr.example.'', ''192.0.2.1.in-addr.example.'']))],
            \<lparr>dns = (NewDnsRecord ''example.net'')
                     \<lparr>aRecords := Some [[93, 184, 216, 34], [192, 0, 2, 1]],
                      ptrRecords := Some [''93.184.216.34.in-addr.example.'',
                                          ''192.0.2.1.in-addr.example.'']\<rparr>,
             mutex = False,
             trace = [CallLookupIP ''example.net'',
                      CallLookupAddr ''93.184.216.34'', CallLookupAddr ''192.0.2.1'']\<rparr>)"
  by (simp add: acc_defs prog_defs init_defs stub_defs slice_defs)

text \<open>
  C3, amended. For every one of the six kinds, the pointer kind included, and every
  instance whose slot of that kind is not cached: when the first call of the accessor
  returns and leaves the slot populated (its slice not nil, its name not empty), the
  second call returns the same value and changes nothing, so it makes no resolver call;
  and for every kind but the pointer kind the first call has made exactly one resolver
  call. For these five kinds the first call does return and leave the slot populated
  whenever the mutex is free and the resolver's answer is one that fills the slot (no
  error, and at least one address for the address kind, a name that is not empty for
  the canonical name, any result for mail exchange and name server, zero records
  included, a slice that is not nil for text). How many reverse lookups the first call
  of \<open>GetPtrRecords\<close> makes is not part of this statement.
\<close>

theorem C3_second_call_served_from_cache:
  assumes "\<not> cached k (dns w)"
  shows "(accessor n k w = Inr (v, w1) \<and> cached k (dns w1)
            \<longrightarrow> accessor n k w1 = Inr (v, w1)
               \<and> (k \<noteq> KPTR \<longrightarrow> trace w1 = trace w @ [resolver_call k (domain (dns w))]))
       \<and> (\<not> mutex w \<and> lookup_populates n k (length (trace w)) (domain (dns w))
            \<longrightarrow> (\<exists>v' w'. accessor n k w = Inr (v', w')
                   \<and> trace w' = trace w @ [resolver_call k (domain (dns w))]
                   \<and> cached k (dns w')
                   \<and> accessor n k w' = Inr (v', w')))"
proof (intro conjI impI)
  assume a: "accessor n k w = Inr (v, w1) \<and> cached k (dns w1)"
  have "v = slot k (dns w1)"
    using accessor_Inr(1) a by blast
  then show "accessor n k w1 = Inr (v, w1)"
    using accessor_cached [of k w1 n] a by simp
  assume "k \<noteq> KPTR"
  then show "trace w1 = trace w @ [resolver_call k (domain (dns w))]"
    using a assms
    by (cases k)
       (auto simp: GetARecords_def GetCnameRecords_def GetMxRecords_def GetNsRecords_def
          GetTxtRecords_def prog_defs split: prod.splits if_splits)
next
  assume h: "\<not> mutex w \<and> lookup_populates n k (length (trace w)) (domain (dns w))"
  have "\<exists>v' w'. accessor n k w = Inr (v', w')
           \<and> trace w' = trace w @ [resolver_call k (domain (dns w))]
           \<and> cached k (dns w') \<and> v' = slot k (dns w')"
    using assms h
    by (cases k) (auto simp: acc_defs prog_defs slice_defs split: prod.splits)
  then obtain v' w' where 1: "accessor n k w = Inr (v', w')"
    and 2: "trace w' = trace w @ [resolver_call k (domain (dns w))]"
    and 3: "cached k (dns w')" and 4: "v' = slot k (dns w')"
    by blast
  have "accessor n k w' = Inr (v', w')"
    using accessor_cached [OF 3] 4 by simp
  with 1 2 3 show "\<exists>v' w'. accessor n k w = Inr (v', w')
           \<and> trace w' = trace w @ [resolver_call k (domain (dns w))]
           \<and> cached k (dns w')
           \<and> accessor n k w' = Inr (v', w')"
    by blast
qed

theorem C3_second_call_served_from_cache_witness:
  "\<not> cached KPTR (dns addressed_world)
   \<and> accessor two_address_net KPTR addressed_world
       = Inr (Strs (Some [''93.184.216.34.in-addr.example.'']),
              \<lparr>dns = (NewDnsRecord ''example.net'')
                       \<lparr>aRecords := Some [[93, 184, 216, 34]],
                        ptrRecords := Some [''93.184.216.34.in-addr.example.'']\<rparr>,
               mutex = False,
               trace = [CallLookupIP ''example.net'', CallLookupAddr ''93.184.216.34'']\<rparr>)
   \<and> cached KPTR ((NewDnsRecord ''example.net'')
                     \<lparr>aRecords := Some [[93, 184, 216, 34]],
                      ptrRecords := Some [''93.184.216.34.in-addr.example.'']\<rparr>)
   \<and> accessor two_address_net KPTR
         \<lparr>dns = (NewDnsRecord ''example.net'')
                  \<lparr>aRecords := Some [[93, 184, 216, 34]],
                   ptrRecords := Some [''93.184.216.34.in-addr.example.'']\<rparr>,
          mutex = False,
          trace = [CallLookupIP ''example.net'', CallLookupAddr ''93.184.216.34'']\<rparr>
       = Inr (Strs (Some [''93.184.216.34.in-addr.example.'']),
              \<lparr>dns = (NewDnsRecord ''example.net'')
                       \<lparr>aRecords := Some [[93, 184, 216, 34]],
                        ptrRecords := Some [''93.184.216.34.in-addr.example.'']\<rparr>,
               mutex = False,
               trace = [CallLookupIP ''example.net'', CallLookupAddr ''93.184.216.34'']\<rparr>)
   \<and> \<not> cached KMX (dns (init_world (NewDnsRecord ''example.net'')))
   \<and> \<not> mutex (init_world (NewDnsRecord ''example.net''))
   \<and> lookup_populates example_net KMX 0 ''example.net''
   \<and> (\<exists>v w1. accessor example_net KMX (init_world (NewDnsRecord ''example.net'')) = Inr (v, w1)
           \<and> trace w1 = [CallLookupMX ''example.net'']
           \<and> cached KMX (dns w1)
           \<and> accessor example_net KMX w1 = Inr (v, w1))"
proof -
  let ?v = "Strs (Some [''93.184.216.34.in-addr.example.''])"
  let ?w1 = "\<lparr>dns = (NewDnsRecord ''example.net'')
                       \<lparr>aRecords := Some [[93, 184, 216, 34]],
                        ptrRecords := Some [''93.184.216.34.in-addr.example.'']\<rparr>,
               mutex = False,
               trace = [CallLookupIP ''example.net'', CallLookupAddr ''93.184.216.34'']\<rparr>"
  have u: "\<not> cached KPTR (dns addressed_world)"
    by (simp add: stub_defs init_defs)
  have f: "accessor two_address_net KPTR addressed_world = Inr (?v, ?w1)"
    by (simp add: acc_defs prog_defs init_defs stub_defs slice_defs)
  have c: "cached KPTR (dns ?w1)"
    by (simp add: init_defs)
  have p: "accessor two_address_net KPTR ?w1 = Inr (?v, ?w1)"
    using C3_second_call_served_from_cache
            [OF u, of two_address_net ?v ?w1] f c by blast
  have m: "\<not> cached KMX (dns (init_world (NewDnsRecord ''example.net'')))"
    by (simp add: init_defs)
  have x: "\<exists>v w1. accessor example_net KMX (init_world (NewDnsRecord ''example.net'')) = Inr (v, w1)
           \<and> trace w1 = [CallLookupMX ''example.net'']
           \<and> cached KMX (dns w1)
           \<and> accessor example_net KMX w1 = Inr (v, w1)"
    using C3_second_call_served_from_cache [OF m, of example_net ?v ?w1]
    by (simp add: init_defs stub_defs)
  show ?thesis
    using u f c p m x by (simp add: init_defs stub_defs)
qed

text \<open>
  C4. Once a slot is populated (its slice is not nil, its name is not empty, which only
  a resolution without error brings about), no later call overwrites it: after any
  sequence of calls of the six accessors and of \<open>GetAllRecords\<close> that returns, the slot
  holds the same value, and the accessor of its kind returns that value and changes
  nothing.
\<close>

theorem C4_populated_slot_never_overwritten:
  assumes "cached k (dns w)" and "run_calls n ms w = Inr (rs, w')"
  shows "slot k (dns w') = slot k (dns w) \<and> accessor n k w' = Inr (slot k (dns w), w')"
proof -
  have "cached k (dns w') \<and> slot k (dns w') = slot k (dns w)"
    using run_calls_keeps(2) [OF assms(2) assms(1)] .
  then show ?thesis
    using accessor_cached [of k w' n] by simp
qed

theorem C4_populated_slot_never_overwritten_witness:
  "cached KA (dns addressed_world)
   \<and> run_calls example_net [Get KCNAME, Get KPTR, Get KA] addressed_world
       = Inr ([One (Str ''example.net.''), One (Strs None), One (IPs (Some [[93, 184, 216, 34]]))],
              \<lparr>dns = (NewDnsRecord ''example.net'')
                       \<lparr>aRecords := Some [[93, 184, 216, 34]], cnameRecords := ''example.net.''\<rparr>,
               mutex = False,
               trace = [CallLookupIP ''example.net'', CallLookupCNAME ''example.net'',
                        CallLookupAddr ''93.184.216.34'']\<rparr>)
   \<and> slot KA ((NewDnsRecord ''example.net'')
                \<lparr>aRecords := Some [[93, 184, 216, 34]], cnameRecords := ''example.net.''\<rparr>)
       = slot KA (dns addressed_world)"
proof -
  have c: "cached KA (dns addressed_world)"
    by (simp add: stub_defs)
  have r: "run_calls example_net [Get KCNAME, Get KPTR, Get KA] addressed_world
       = Inr ([One (Str ''example.net.''), One (Strs None), One (IPs (Some [[93, 184, 216, 34]]))],
              \<lparr>dns = (NewDnsRecord ''example.net'')
                       \<lparr>aRecords := Some [[93, 184, 216, 34]], cnameRecords := ''example.net.''\<rparr>,
               mutex = False,
               trace = [CallLookupIP ''example.net'', CallLookupCNAME ''example.net'',
                        CallLookupAddr ''93.184.216.34'']\<rparr>)"
    by (simp add: acc_defs prog_defs init_defs stub_defs slice_defs)
  show ?thesis
    using C4_populated_slot_never_overwritten [OF c r] c r by simp
qed

text \<open>
  C5. \<open>GetAllRecords\<close> should return the map with its six keys whatever the six
  resolver calls do, all six failing included. On a new instance whose lookups all fail
  it returns nothing: the failed canonical-name lookup ends the call in the fatal error
  of unlocking a mutex that is not locked. The code does not do what the claim says.
\<close>

theorem C5_all_lookups_failing_faults:
  "GetAllRecords failing_net (init_world (NewDnsRecord ''example.invalid''))
     = Inl UnlockOfUnlockedMutex"
  by (simp add: acc_defs prog_defs init_defs stub_defs slice_defs)

text \<open>
  C6. After a failed resolution the next call of the accessor should look up again and
  return what the retry finds. With a resolver that fails once and succeeds afterwards,
  two calls of \<open>GetTxtRecords\<close>, and two of \<open>GetCnameRecords\<close>, end in the fatal error
  during the first call: there is no second call. The code does not do what the claim
  says.
\<close>

theorem C6_failed_txt_and_cname_lookup_is_not_retried:
  "run_calls fail_then_succeed_net [Get KTXT, Get KTXT] (init_world (NewDnsRecord ''example.net''))
     = Inl UnlockOfUnlockedMutex
   \<and> run_calls fail_then_succeed_net [Get KCNAME, Get KCNAME] (init_world (NewDnsRecord ''example.net''))
     = Inl UnlockOfUnlockedMutex"
  by (simp add: acc_defs prog_defs init_defs stub_defs slice_defs)

text \<open>
  C7. When neither the pointer slot nor the address slot is cached and the address
  lookup succeeds with an empty list (nil or not), \<open>GetPtrRecords\<close> returns the nil
  slice, an empty sequence, and the only resolver call it has made is the address
  lookup: no reverse lookup.
\<close>

theorem C7_no_address_no_reverse_lookup:
  assumes "\<not> mutex w" and "ptrRecords (dns w) = None" and "aRecords (dns w) = None"
    and "LookupIP n (length (trace w)) (domain (dns w)) = (a, None)" and "elems a = []"
  shows "GetPtrRecords n w = Inr (None, w\<lparr>trace := trace w @ [CallLookupIP (domain (dns w))]\<rparr>)
         \<and> elems (None :: string slice) = []
         \<and> reverse_lookups (trace w @ [CallLookupIP (domain (dns w))]) = reverse_lookups (trace w)"
proof -
  have d: "(dns w)\<lparr>aRecords := None\<rparr> = dns w"
    using assms(3) by simp
  have m: "w\<lparr>trace := trace w @ [CallLookupIP (domain (dns w))], mutex := False\<rparr>
          = w\<lparr>trace := trace w @ [CallLookupIP (domain (dns w))]\<rparr>"
    using assms(1) by simp
  show ?thesis
    using assms by (simp add: acc_defs prog_defs slice_defs reverse_lookups_def d m)
qed

theorem C7_no_address_no_reverse_lookup_witness:
  "\<not> mutex (init_world (NewDnsRecord ''example.net''))
   \<and> ptrRecords (dns (init_world (NewDnsRecord ''example.net''))) = None
   \<and> aRecords (dns (init_world (NewDnsRecord ''example.net''))) = None
   \<and> LookupIP zero_records_net 0 ''example.net'' = (Some [], None)
   \<and> elems (Some []) = ([] :: IP list)
   \<and> GetPtrRecords zero_records_net (init_world (NewDnsRecord ''example.net''))
       = Inr (None, \<lparr>dns = NewDnsRecord ''example.net'', mutex = False,
                     trace = [CallLookupIP ''example.net'']\<rparr>)
   \<and> reverse_lookups [CallLookupIP ''example.net''] = 0"
  using C7_no_address_no_reverse_lookup
          [of "init_world (NewDnsRecord ''example.net'')" zero_records_net "Some []"]
  by (simp add: init_defs stub_defs elems_def reverse_lookups_def)

text \<open>
  C8. \<open>NewDnsRecord\<close> stores the domain as given, and after any sequence of calls of the
  accessors and of \<open>GetAllRecords\<close> on the new instance the domain is still that string.
\<close>

theorem C8_domain_stored_and_never_mutated:
  assumes "run_calls n ms (init_world (NewDnsRecord domainName)) = Inr (rs, w')"
  shows "domain (NewDnsRecord domainName) = domainName \<and> domain (dns w') = domainName"
  using run_calls_keeps(1) [OF assms] by (simp add: init_defs)

theorem C8_domain_stored_and_never_mutated_witness:
  "run_calls example_net [Get KA, Get KPTR, Get KMX] (init_world (NewDnsRecord ''Example.NET.''))
     = Inr ([One (IPs (Some [[93, 184, 216, 34]])), One (Strs None), One (MXs (Some [MX ''.'' 0]))],
            \<lparr>dns = (NewDnsRecord ''Example.NET.'')
                     \<lparr>aRecords := Some [[93, 184, 216, 34]], mxRecords := Some [MX ''.'' 0]\<rparr>,
             mutex = False,
             trace = [CallLookupIP ''Example.NET.'', CallLookupAddr ''93.184.216.34'',
                      CallLookupMX ''Example.NET.'']\<rparr>)
   \<and> domain (NewDnsRecord ''Example.NET.'') = ''Example.NET.''
   \<and> domain ((NewDnsRecord ''Example.NET.'')
                \<lparr>aRecords := Some [[93, 184, 216, 34]], mxRecords := Some [MX ''.'' 0]\<rparr>)
       = ''Example.NET.''"
proof -
  have r: "run_calls example_net [Get KA, Get KPTR, Get KMX] (init_world (NewDnsRecord ''Example.NET.''))
     = Inr ([One (IPs (Some [[93, 184, 216, 34]])), One (Strs None), One (MXs (Some [MX ''.'' 0]))],
            \<lparr>dns = (NewDnsRecord ''Example.NET.'')
                     \<lparr>aRecords := Some [[93, 184, 216, 34]], mxRecords := Some [MX ''.'' 0]\<rparr>,
             mutex = False,
             trace = [CallLookupIP ''Example.NET.'', CallLookupAddr ''93.184.216.34'',
                      CallLookupMX ''Example.NET.'']\<rparr>)"
    by (simp add: acc_defs prog_defs init_defs stub_defs slice_defs)
  show ?thesis
    using C8_domain_stored_and_never_mutated [OF r] r by simp
qed

text \<open>
  C9. With a missing domain argument the program should print the usage message and
  perform no lookup. Run with \<open>-s a\<close> and no \<open>-domain\<close>, it prints the address records
  instead and has looked up the empty name: the code does not do what the claim says.
\<close>

theorem C9_missing_domain_is_looked_up:
  "main example_net [] ''a''
     = Inr ([PrintVal (IPs (Some [[93, 184, 216, 34]]))],
            \<lparr>dns = (NewDnsRecord [])\<lparr>aRecords := Some [[93, 184, 216, 34]]\<rparr>,
             mutex = False, trace = [CallLookupIP []]\<rparr>)"
  by (simp add: main_def isValidSearchType_def searchOptions_def acc_defs prog_defs
        init_defs stub_defs slice_defs)

text \<open>
  C10. \<open>isValidSearchType\<close> is true exactly for the seven search types, and false for
  the empty string.
\<close>

theorem C10_isValidSearchType_iff:
  "(isValidSearchType s \<longleftrightarrow> s \<in> {''a'', ''all'', ''cname'', ''mx'', ''ns'', ''ptr'', ''txt''})
   \<and> \<not> isValidSearchType []"
  by (simp add: isValidSearchType_def searchOptions_def isValid_loop_False)


end
